theory Spec2Isabelle
  imports Complex_Main
begin

section \<open>Data model of the measurement pipeline\<close>

text \<open>
  The pipeline is the method \<open>CSVEventHandler.plot_data\<close> of \<open>csv_plotter.py\<close>.
  The three unit combo boxes are filled once with fixed items
  (\<open>['s', 'min', 'hour']\<close>, \<open>['mm', '\<mu>m']\<close> and the six strain-rate units), so
  their current text is one value of an enumeration.
\<close>

datatype time_unit = S | Min | Hour

datatype diameter_unit = Mm | Um

datatype strain_rate_unit = PerS | PerMin | PerHour | UmPerS | UmPerMin | UmPerHour

text \<open>
  A row of the data frame read from the CSV file: the first two columns, a missing cell
  being \<open>None\<close>. The numbers of the arrays are modelled as reals: rounding and overflow
  of IEEE doubles are outside the model.
\<close>

type_synonym row = "real option \<times> real option"

text \<open>
  numpy divides arrays without raising: a division by zero gives \<open>inf\<close> or \<open>nan\<close>
  (with a warning). A value that went through such a division is \<open>None\<close> here, a
  finite value \<open>x\<close> is \<open>Some x\<close>, and a non-finite operand makes the result of
  \<open>+\<close>, \<open>-\<close>, \<open>*\<close> and \<open>/\<close> non-finite again. \<open>Some x\<close> is the value in
  exact arithmetic: that a float64 result overflowed is not seen in it, so \<open>None\<close>
  says that the float64 value is not finite and \<open>Some\<close> does not say that it is.
\<close>

type_synonym fl = "real option"

text \<open>
  The exceptions the try block of \<open>plot_data\<close> can meet: \<open>pd.read_csv\<close> failing,
  the \<open>ValueError\<close> of \<open>savgol_filter\<close> when the window is longer than the data
  (the spec's \<open>InsufficientDataError\<close>), the \<open>ValueError\<close> of \<open>np.gradient\<close> on
  an array too short or of another length than its coordinates, and the \<open>NameError\<close>
  of the axis labels when \<open>time_unit\<close> was never bound.
\<close>

datatype error = ReadError | InsufficientData | GradientError | NameError

type_synonym derived = "real list \<times> real list \<times> fl list \<times> fl list"

subsection \<open>Array arithmetic\<close>

definition fl_div :: "real \<Rightarrow> real \<Rightarrow> fl" where
  "fl_div a b = (if b = 0 then None else Some (a / b))"

fun fl_quot :: "fl \<Rightarrow> real \<Rightarrow> fl" where
  "fl_quot None b = None"
| "fl_quot (Some a) b = fl_div a b"

fun fl_add :: "fl \<Rightarrow> fl \<Rightarrow> fl" where
  "fl_add (Some a) (Some b) = Some (a + b)"
| "fl_add _ _ = None"

fun fl_sub :: "fl \<Rightarrow> fl \<Rightarrow> fl" where
  "fl_sub (Some a) (Some b) = Some (a - b)"
| "fl_sub _ _ = None"

fun fl_mul :: "fl \<Rightarrow> fl \<Rightarrow> fl" where
  "fl_mul (Some a) (Some b) = Some (a * b)"
| "fl_mul _ _ = None"

fun fl_scale :: "fl \<Rightarrow> real \<Rightarrow> fl" where
  "fl_scale None c = None"
| "fl_scale (Some a) c = Some (a * c)"

subsection \<open>The library functions\<close>

text \<open>
  Modelled from the spec: \<open>scipy.signal.savgol_filter\<close> is a library function, called
  as \<open>savgol_filter(diameter, 5, 2)\<close>; its code is not part of the repository. The spec
  (4.1, step 2) describes it as a local polynomial smoothing filter with window size 5 and
  polynomial order 2, applied to the full series and failing on fewer than 5 points. In
  exact arithmetic the least-squares quadratic through five equally spaced points has the
  fitted values of \<open>polyfit_edge\<close>; its middle value is the convolution
  \<open>savgol_conv\<close>. The default mode \<open>interp\<close> takes the first two and the last two
  outputs from the quadratic fitted to the first and to the last five points.
\<close>

fun polyfit_edge :: "real list \<Rightarrow> real list" where
  "polyfit_edge [x0, x1, x2, x3, x4] =
     [(31 * x0 + 9 * x1 - 3 * x2 - 5 * x3 + 3 * x4) / 35,
      (9 * x0 + 13 * x1 + 12 * x2 + 6 * x3 - 5 * x4) / 35,
      (- 3 * x0 + 12 * x1 + 17 * x2 + 12 * x3 - 3 * x4) / 35,
      (- 5 * x0 + 6 * x1 + 12 * x2 + 13 * x3 + 9 * x4) / 35,
      (3 * x0 - 5 * x1 - 3 * x2 + 9 * x3 + 31 * x4) / 35]"
| "polyfit_edge w = []"

definition savgol_conv :: "real list \<Rightarrow> nat \<Rightarrow> real" where
  "savgol_conv x i =
     (- 3 * x ! (i - 2) + 12 * x ! (i - 1) + 17 * x ! i + 12 * x ! (i + 1) - 3 * x ! (i + 2)) / 35"

definition savgol_filter :: "real list \<Rightarrow> error + real list" where
  "savgol_filter x =
     (if length x < 5 then Inl InsufficientData
      else Inr (take 2 (polyfit_edge (take 5 x))
                @ map (savgol_conv x) [2 ..< length x - 2]
                @ drop 3 (polyfit_edge (drop (length x - 5) x))))"

text \<open>
  Modelled from the spec: \<open>numpy.gradient\<close> is a library function, called as
  \<open>np.gradient(diametrical_strain, time)\<close>; its code is not part of the repository.
  The spec (4.1, step 6) describes it as central differences in the interior and forward
  and backward differences at the two ends, with respect to the time values. The model
  follows numpy for coordinates given as an array: the spacings are \<open>np_diff\<close>; when
  they are all equal the interior is \<open>(f[i+1] - f[i-1]) / (2 * dx)\<close>, otherwise it is
  the second-order central difference \<open>a * f[i-1] + b * f[i] + c * f[i+1]\<close> with
  \<open>a = -dx2 / (dx1 * (dx1 + dx2))\<close>, \<open>b = (dx2 - dx1) / (dx1 * dx2)\<close>,
  \<open>c = dx1 / (dx2 * (dx1 + dx2))\<close>; the ends are \<open>(f[1] - f[0]) / dx[0]\<close> and
  \<open>(f[-1] - f[-2]) / dx[-1]\<close>.
\<close>

definition np_diff :: "real list \<Rightarrow> real list" where
  "np_diff x = map (\<lambda>i. x ! (i + 1) - x ! i) [0 ..< length x - 1]"

definition uniform_spacing :: "real list \<Rightarrow> bool" where
  "uniform_spacing dx = list_all (\<lambda>d. d = dx ! 0) dx"

definition gradient_interior :: "fl list \<Rightarrow> real list \<Rightarrow> nat \<Rightarrow> fl" where
  "gradient_interior f dx i =
     (if uniform_spacing dx then fl_quot (fl_sub (f ! (i + 1)) (f ! (i - 1))) (2 * dx ! 0)
      else
        (let dx1 = dx ! (i - 1); dx2 = dx ! i;
             a = fl_div (- dx2) (dx1 * (dx1 + dx2));
             b = fl_div (dx2 - dx1) (dx1 * dx2);
             c = fl_div dx1 (dx2 * (dx1 + dx2))
         in fl_add (fl_add (fl_mul a (f ! (i - 1))) (fl_mul b (f ! i))) (fl_mul c (f ! (i + 1)))))"

definition np_gradient :: "fl list \<Rightarrow> real list \<Rightarrow> error + fl list" where
  "np_gradient f x =
     (if length x \<noteq> length f \<or> length f < 2 then Inl GradientError
      else
        (let n = length f; dx = np_diff x
         in Inr (fl_quot (fl_sub (f ! 1) (f ! 0)) (dx ! 0)
                 # map (gradient_interior f dx) [1 ..< n - 1]
                 @ [fl_quot (fl_sub (f ! (n - 1)) (f ! (n - 2))) (dx ! (n - 2))])))"

subsection \<open>The transformation\<close>

text \<open>\<open>DataFrame.dropna()\<close>: the rows with a missing cell are dropped.\<close>

fun complete_row :: "row \<Rightarrow> (real \<times> real) option" where
  "complete_row (Some t, Some d) = Some (t, d)"
| "complete_row _ = None"

definition dropna :: "row list \<Rightarrow> (real \<times> real) list" where
  "dropna df = List.map_filter complete_row df"

text \<open>The \<open>if\<close>/\<open>elif\<close> chain on the time unit binds the converted time and \<open>time_factor\<close>.\<close>

fun convert_time :: "time_unit \<Rightarrow> real list \<Rightarrow> real list \<times> real" where
  "convert_time S time = (time, 1)"
| "convert_time Min time = (map (\<lambda>t. t / 60) time, 60)"
| "convert_time Hour time = (map (\<lambda>t. t / 3600) time, 3600)"

text \<open>The diameter unit converts the smoothed diameter and the initial diameter alike.\<close>

fun convert_diameter :: "diameter_unit \<Rightarrow> real list \<Rightarrow> real \<Rightarrow> real list \<times> real" where
  "convert_diameter Um diameter_smooth initial_diameter =
     (map (\<lambda>d. d * 1000) diameter_smooth, initial_diameter * 1000)"
| "convert_diameter Mm diameter_smooth initial_diameter = (diameter_smooth, initial_diameter)"

text \<open>The \<open>if\<close>/\<open>elif\<close> chain on the strain-rate unit, one value of the array.\<close>

fun convert_strain_rate :: "strain_rate_unit \<Rightarrow> real \<Rightarrow> fl \<Rightarrow> fl" where
  "convert_strain_rate PerS time_factor r = fl_scale r time_factor"
| "convert_strain_rate PerMin time_factor r = fl_scale (fl_scale r time_factor) 60"
| "convert_strain_rate PerHour time_factor r = fl_scale (fl_scale r time_factor) 3600"
| "convert_strain_rate UmPerS time_factor r = fl_scale (fl_scale r time_factor) 1000"
| "convert_strain_rate UmPerMin time_factor r =
     fl_scale (fl_scale (fl_scale r time_factor) 1000) 60"
| "convert_strain_rate UmPerHour time_factor r =
     fl_scale (fl_scale (fl_scale r time_factor) 1000) 3600"

text \<open>
  Lines 529 to 576 of \<open>plot_data\<close>, from the data frame to the four series that are
  stored in \<open>calculated_data\<close>.
\<close>

definition transform ::
  "row list \<Rightarrow> real \<Rightarrow> time_unit \<Rightarrow> diameter_unit \<Rightarrow> strain_rate_unit \<Rightarrow> error + derived" where
  "transform df initial_diameter tu du sru =
     (let rows = dropna df; time = map fst rows; diameter = map snd rows
      in case savgol_filter diameter of
           Inl e \<Rightarrow> Inl e
         | Inr diameter_smooth \<Rightarrow>
             (let (time_converted, time_factor) = convert_time tu time;
                  (diameter_converted, initial_diameter_converted) =
                     convert_diameter du diameter_smooth initial_diameter;
                  diametrical_strain =
                     map (\<lambda>d. fl_div (d - initial_diameter_converted) initial_diameter_converted)
                       diameter_converted
              in case np_gradient diametrical_strain time of
                   Inl e \<Rightarrow> Inl e
                 | Inr strain_rate \<Rightarrow>
                     Inr (time_converted, diameter_converted, diametrical_strain,
                          map (convert_strain_rate sru time_factor) strain_rate)))"

subsection \<open>The pipeline after the smoothing\<close>




subsection \<open>The window, the figure and the handler\<close>

text \<open>
  The fields of the \<open>CSVPlotter\<close> window that \<open>plot_data\<close> reads or writes. The
  figure is the list of its axes, in the order \<open>(0,0)\<close>, \<open>(0,1)\<close>, \<open>(1,0)\<close>,
  \<open>(1,1)\<close>; \<open>canvas\<close> is what \<open>canvas.draw\<close> rendered last. A range that is set
  is a finite number, so that \<open>set_xlim\<close> and \<open>set_ylim\<close> do not raise.
\<close>

datatype axis_label =
  TimeLabel time_unit | DiameterLabel diameter_unit | StrainLabel
  | StrainRateLabel strain_rate_unit

record axes =
  lines :: "(fl list \<times> fl list \<times> string \<times> string) list"
  xscale :: string
  yscale :: string
  xlim :: "(real \<times> real) option"
  ylim :: "(real \<times> real) option"
  xlabel :: "axis_label option"
  ylabel :: "axis_label option"
  legend :: bool

datatype label_text = PlottingError error | Message string

type_synonym position = "nat \<times> nat"

record parent =
  time_unit_combo :: time_unit
  diameter_unit_combo :: diameter_unit
  strain_rate_unit_combo :: strain_rate_unit
  scales :: "position \<Rightarrow> string \<times> string"
  ranges :: "position \<Rightarrow> real option \<times> real option \<times> real option \<times> real option"
  calculated_data :: "derived option"
  figure :: "axes list"
  canvas :: "axes list"
  label :: label_text

record handler =
  file_path :: "string option"
  initial_diameter :: real

definition new_axes :: axes where
  "new_axes = \<lparr>lines = [], xscale = ''linear'', yscale = ''linear'', xlim = None, ylim = None,
               xlabel = None, ylabel = None, legend = False\<rparr>"

text \<open>\<open>figure.clear()\<close> followed by \<open>figure.subplots(2, 2)\<close>: four fresh axes.\<close>

definition subplots :: "axes list" where
  "subplots = [new_axes, new_axes, new_axes, new_axes]"

text \<open>
  One turn of the loop over the four positions: the scales, and a limit only when both
  of its ends are set.
\<close>

fun set_view ::
  "string \<times> string \<Rightarrow> real option \<times> real option \<times> real option \<times> real option \<Rightarrow> axes \<Rightarrow> axes" where
  "set_view (x_scale, y_scale) (x_min, x_max, y_min, y_max) ax =
     ax\<lparr>xscale := x_scale, yscale := y_scale,
        xlim := (case (x_min, x_max) of (Some a, Some b) \<Rightarrow> Some (a, b) | _ \<Rightarrow> xlim ax),
        ylim := (case (y_min, y_max) of (Some a, Some b) \<Rightarrow> Some (a, b) | _ \<Rightarrow> ylim ax)\<rparr>"

text \<open>The four plots, their views, their axis labels and their legends.\<close>

definition plot_figure :: "parent \<Rightarrow> derived \<Rightarrow> axes list" where
  "plot_figure p d =
     (case d of (time_converted, diameter_converted, diametrical_strain, strain_rate_converted) \<Rightarrow>
        (let t = map Some time_converted;
             tl = TimeLabel (time_unit_combo p);
             rl = StrainRateLabel (strain_rate_unit_combo p)
         in [(set_view (scales p (0, 0)) (ranges p (0, 0))
                (new_axes\<lparr>lines := [(t, map Some diameter_converted, ''b-'', ''Absolute Diameter'')]\<rparr>))
               \<lparr>xlabel := Some tl, ylabel := Some (DiameterLabel (diameter_unit_combo p)),
                legend := True\<rparr>,
             (set_view (scales p (0, 1)) (ranges p (0, 1))
                (new_axes\<lparr>lines := [(t, diametrical_strain, ''r-'', ''Diametrical Strain'')]\<rparr>))
               \<lparr>xlabel := Some tl, ylabel := Some StrainLabel, legend := True\<rparr>,
             (set_view (scales p (1, 0)) (ranges p (1, 0))
                (new_axes\<lparr>lines := [(t, strain_rate_converted, ''g-'', ''Strain Rate'')]\<rparr>))
               \<lparr>xlabel := Some tl, ylabel := Some rl, legend := True\<rparr>,
             (set_view (scales p (1, 1)) (ranges p (1, 1))
                (new_axes\<lparr>lines := [(diametrical_strain, strain_rate_converted, ''m-'',
                                       ''Creep Rate vs Strain'')]\<rparr>))
               \<lparr>xlabel := Some StrainLabel, ylabel := Some rl, legend := True\<rparr>]))"

text \<open>
  The computation inside the try block, up to the series that are stored. The file
  system is the function \<open>read_csv\<close>, from a path to the data frame or to the error of
  reading it. When \<open>file_path\<close> is empty or \<open>None\<close> the block under
  \<open>if self.file_path\<close> is skipped and the first axis label raises \<open>NameError\<close>,
  \<open>time_unit\<close> being unbound.
\<close>

definition compute ::
  "(string \<Rightarrow> error + row list) \<Rightarrow> handler \<Rightarrow> parent \<Rightarrow> error + derived" where
  "compute read_csv h p =
     (case file_path h of
        None \<Rightarrow> Inl NameError
      | Some path \<Rightarrow>
          if path = [] then Inl NameError
          else (case read_csv path of
                  Inl e \<Rightarrow> Inl e
                | Inr df \<Rightarrow>
                    transform df (initial_diameter h) (time_unit_combo p)
                      (diameter_unit_combo p) (strain_rate_unit_combo p)))"

text \<open>
  \<open>plot_data\<close>: the figure is cleared and given four new axes before the try block;
  on success the series are stored, plotted and a draw of the canvas is queued; any
  exception ends in the handler, which writes the message to the label.
\<close>

definition plot_data ::
  "(string \<Rightarrow> error + row list) \<Rightarrow> handler \<Rightarrow> parent \<Rightarrow> parent" where
  "plot_data read_csv h p =
     (let p1 = p\<lparr>figure := subplots\<rparr>
      in case compute read_csv h p1 of
           Inl e \<Rightarrow> p1\<lparr>label := PlottingError e\<rparr>
         | Inr d \<Rightarrow>
             (let p2 = p1\<lparr>calculated_data := Some d\<rparr>;
                  p3 = p2\<lparr>figure := plot_figure p2 d\<rparr>
              in p3\<lparr>canvas := figure p3\<rparr>))"

subsection \<open>The divisors of the gradient in float64\<close>

text \<open>
  Modelled from the spec: the divisors of \<open>numpy.gradient\<close> (4.1, step 6), a library
  function outside the repository. The product of two float64 numbers underflows: a
  product of magnitude at most \<open>2^-1075\<close>, half the smallest positive float64, is
  rounded to zero. \<open>float64_mult\<close> is the product as far as that goes; the rounding of
  any larger product is left out.
\<close>

definition float64_mult :: "real \<Rightarrow> real \<Rightarrow> real" where
  "float64_mult a b = (if \<bar>a * b\<bar> \<le> 1 / 2 ^ 1075 then 0 else a * b)"

text \<open>
  The numbers \<open>np.gradient\<close> divides by, for the spacings \<open>dx\<close>: at the two ends the
  first and the last spacing; in the interior \<open>2 * dx\<close> when the spacings are all
  equal, otherwise the three products \<open>dx1 * (dx1 + dx2)\<close>, \<open>dx1 * dx2\<close> and
  \<open>dx2 * (dx1 + dx2)\<close> of every pair of neighbouring spacings.
\<close>

definition gradient_divisors :: "real list \<Rightarrow> real list" where
  "gradient_divisors dx =
     (if dx = [] then []
      else if uniform_spacing dx then [dx ! 0, 2 * dx ! 0]
      else dx ! 0 # dx ! (length dx - 1)
           # concat (map (\<lambda>i. [float64_mult (dx ! (i - 1)) (dx ! (i - 1) + dx ! i),
                                 float64_mult (dx ! (i - 1)) (dx ! i),
                                 float64_mult (dx ! i) (dx ! (i - 1) + dx ! i)])
                       [1 ..< length dx]))"

text \<open>The interior value of the gradient with these products.\<close>

definition gradient_interior_float64 :: "fl list \<Rightarrow> real list \<Rightarrow> nat \<Rightarrow> fl" where
  "gradient_interior_float64 f dx i =
     (if uniform_spacing dx then fl_quot (fl_sub (f ! (i + 1)) (f ! (i - 1))) (2 * dx ! 0)
      else
        (let dx1 = dx ! (i - 1); dx2 = dx ! i;
             a = fl_div (- dx2) (float64_mult dx1 (dx1 + dx2));
             b = fl_div (dx2 - dx1) (float64_mult dx1 dx2);
             c = fl_div dx1 (float64_mult dx2 (dx1 + dx2))
         in fl_add (fl_add (fl_mul a (f ! (i - 1))) (fl_mul b (f ! i))) (fl_mul c (f ! (i + 1)))))"

subsection \<open>Drawing, the full-screen window and the exceptions of plot_data\<close>

text \<open>
  \<open>canvas.draw\<close>: the canvas renders the figure as it is when the draw runs. It is the
  call that \<open>plot_data\<close> queues on success.
\<close>

definition draw :: "parent \<Rightarrow> parent" where
  "draw p = p\<lparr>canvas := figure p\<rparr>"

text \<open>
  \<open>open_fullscreen_plot\<close>: the full-screen window puts a new canvas on the figure of the
  window, \<open>FigureCanvas(self.figure)\<close>; what it shows is the figure as it is then.
\<close>

definition open_fullscreen_plot :: "parent \<Rightarrow> axes list" where
  "open_fullscreen_plot p = figure p"

text \<open>
  \<open>plot_data\<close> with its exceptions written out. The body of the try block either
  raises or returns the window; \<open>except Exception\<close> turns whatever was raised into the
  message of the label. \<open>plot_data_call\<close> is \<open>Inl e\<close> when the exception \<open>e\<close>
  leaves the method and \<open>Inr\<close> of the window when the method returns.
\<close>

definition try_block ::
  "(string \<Rightarrow> error + row list) \<Rightarrow> handler \<Rightarrow> parent \<Rightarrow> error + parent" where
  "try_block read_csv h p1 =
     (case compute read_csv h p1 of
        Inl e \<Rightarrow> Inl e
      | Inr d \<Rightarrow>
          (let p2 = p1\<lparr>calculated_data := Some d\<rparr>;
               p3 = p2\<lparr>figure := plot_figure p2 d\<rparr>
           in Inr (draw p3)))"

definition plot_data_call ::
  "(string \<Rightarrow> error + row list) \<Rightarrow> handler \<Rightarrow> parent \<Rightarrow> error + parent" where
  "plot_data_call read_csv h p =
     (let p1 = p\<lparr>figure := subplots\<rparr>
      in case try_block read_csv h p1 of
           Inl e \<Rightarrow> Inr (p1\<lparr>label := PlottingError e\<rparr>)
         | Inr p' \<Rightarrow> Inr p')"

subsection \<open>The unit tables as the specification words them\<close>

text \<open>
  The specification's tables (4.1, steps 3, 4 and 7), written from its words, to be
  compared with the chains of the code: the divisor of the time unit, the multiplier of
  the diameter unit and the multiplier of the strain-rate unit.
\<close>

definition spec_time_factor :: "time_unit \<Rightarrow> real" where
  "spec_time_factor tu = (case tu of S \<Rightarrow> 1 | Min \<Rightarrow> 60 | Hour \<Rightarrow> 3600)"

definition spec_diameter_multiplier :: "diameter_unit \<Rightarrow> real" where
  "spec_diameter_multiplier du = (case du of Mm \<Rightarrow> 1 | Um \<Rightarrow> 1000)"

definition spec_strain_rate_multiplier :: "strain_rate_unit \<Rightarrow> real \<Rightarrow> real" where
  "spec_strain_rate_multiplier sru time_factor =
     (case sru of
        PerS \<Rightarrow> time_factor
      | PerMin \<Rightarrow> time_factor * 60
      | PerHour \<Rightarrow> time_factor * 3600
      | UmPerS \<Rightarrow> time_factor * 1000
      | UmPerMin \<Rightarrow> time_factor * 1000 * 60
      | UmPerHour \<Rightarrow> time_factor * 1000 * 3600)"

subsection \<open>The window as it is created\<close>

text \<open>
  \<open>CSVPlotter.__init__\<close>: each combo box shows its first item, every scale is linear,
  no range is set, nothing was calculated and the figure has no axes yet.
\<close>

definition initial_window :: parent where
  "initial_window =
     \<lparr>time_unit_combo = S, diameter_unit_combo = Mm, strain_rate_unit_combo = PerS,
      scales = (\<lambda>pos. (''linear'', ''linear'')),
      ranges = (\<lambda>pos. (None, None, None, None)),
      calculated_data = None, figure = [], canvas = [],
      label = Message ''Enter values and press 'Enter' before selecting CSV''\<rparr>"

subsection \<open>Sample inputs\<close>

text \<open>
  Inputs on which the theorems below are run: the five constant rows of the
  specification's scenario, seven rows of which one has no time (six remain, unevenly
  spaced and strictly increasing), four rows of which two are incomplete, a handler on a
  file, and a file system in which every path holds the same data frame.
\<close>

definition constant_rows :: "row list" where
  "constant_rows =
     [(Some 0, Some 10), (Some 1, Some 10), (Some 2, Some 10), (Some 3, Some 10),
      (Some 4, Some 10)]"

definition sample_rows :: "row list" where
  "sample_rows =
     [(Some 0, Some 10), (Some 1, Some 11), (None, Some 3), (Some 3, Some 13),
      (Some 4, Some 14), (Some 6, Some 19), (Some 7, Some 19)]"

definition short_rows :: "row list" where
  "short_rows = [(Some 0, Some 10), (None, Some 3), (Some 2, None), (Some 3, Some 10)]"

definition sample_handler :: handler where
  "sample_handler = \<lparr>file_path = Some ''data.csv'', initial_diameter = 10\<rparr>"

definition file_with :: "row list \<Rightarrow> string \<Rightarrow> error + row list" where
  "file_with df path = Inr df"

text \<open>
  Five constant rows whose times are strictly increasing float64 numbers with the
  spacings \<open>2^-600\<close> and \<open>2^-599\<close>.
\<close>

definition tiny_step_rows :: "row list" where
  "tiny_step_rows =
     [(Some 0, Some 10), (Some (1 / 2 ^ 600), Some 10), (Some (3 / 2 ^ 600), Some 10),
      (Some (4 / 2 ^ 600), Some 10), (Some (6 / 2 ^ 600), Some 10)]"

section \<open>Auxiliary facts\<close>

lemma list5: "length w = 5 \<Longrightarrow> \<exists>x0 x1 x2 x3 x4. w = [x0, x1, x2, x3, x4]"
  by (auto simp: eval_nat_numeral length_Suc_conv)

lemma length_polyfit_edge: "length w = 5 \<Longrightarrow> length (polyfit_edge w) = 5"
  using list5 [of w] by auto

lemma savgol_filter_length:
  assumes "savgol_filter x = Inr y"
  shows "length y = length x"
proof -
  have n: "5 \<le> length x"
    using assms by (auto simp: savgol_filter_def split: if_splits)
  have a: "length (polyfit_edge (take 5 x)) = 5"
    using n by (intro length_polyfit_edge) simp
  have b: "length (polyfit_edge (drop (length x - 5) x)) = 5"
    using n by (intro length_polyfit_edge) simp
  have "y = take 2 (polyfit_edge (take 5 x)) @ map (savgol_conv x) [2 ..< length x - 2]
              @ drop 3 (polyfit_edge (drop (length x - 5) x))"
    using assms n by (simp add: savgol_filter_def)
  then show ?thesis
    using a b n by simp
qed

lemma savgol_filter_Inr_iff: "(\<exists>y. savgol_filter x = Inr y) \<longleftrightarrow> 5 \<le> length x"
  by (auto simp: savgol_filter_def)

lemma np_gradient_length: "np_gradient f x = Inr g \<Longrightarrow> length g = length f"
  by (auto simp: np_gradient_def Let_def split: if_splits)

lemma np_gradient_ok:
  "length x = length f \<Longrightarrow> 2 \<le> length f \<Longrightarrow> \<exists>g. np_gradient f x = Inr g"
  by (simp add: np_gradient_def Let_def)

lemma length_convert_time: "length (fst (convert_time tu t)) = length t"
  by (cases tu) simp_all

lemma length_convert_diameter: "length (fst (convert_diameter du d r)) = length d"
  by (cases du) simp_all

lemma transform_Inr:
  assumes "transform df ref tu du sru = Inr (tc, dc, ds, sr)"
  shows "\<exists>sm g. savgol_filter (map snd (dropna df)) = Inr sm
           \<and> tc = fst (convert_time tu (map fst (dropna df)))
           \<and> dc = fst (convert_diameter du sm ref)
           \<and> ds = map (\<lambda>d. fl_div (d - snd (convert_diameter du sm ref))
                                (snd (convert_diameter du sm ref))) dc
           \<and> np_gradient ds (map fst (dropna df)) = Inr g
           \<and> sr = map (convert_strain_rate sru (snd (convert_time tu (map fst (dropna df))))) g"
  using assms
  by (auto simp: transform_def Let_def split: sum.splits prod.splits)

lemma transform_ok:
  assumes "5 \<le> length (dropna df)"
  shows "\<exists>tc dc ds sr. transform df ref tu du sru = Inr (tc, dc, ds, sr)"
proof -
  obtain sm where sm: "savgol_filter (map snd (dropna df)) = Inr sm"
    using assms savgol_filter_Inr_iff [of "map snd (dropna df)"] by auto
  have lsm: "length sm = length (dropna df)"
    using savgol_filter_length [OF sm] by simp
  let ?dc = "fst (convert_diameter du sm ref)"
  let ?r = "snd (convert_diameter du sm ref)"
  let ?ds = "map (\<lambda>d. fl_div (d - ?r) ?r) ?dc"
  have "length ?ds = length (dropna df)"
    by (simp add: length_convert_diameter lsm)
  then obtain g where g: "np_gradient ?ds (map fst (dropna df)) = Inr g"
    using np_gradient_ok [of "map fst (dropna df)" ?ds] assms by auto
  show ?thesis
    using sm g by (auto simp: transform_def Let_def split: prod.splits)
qed

lemma fl_scale_fl_scale: "fl_scale (fl_scale r a) b = fl_scale r (a * b)"
  by (cases r) (simp_all add: mult.assoc)

lemma convert_strain_rate_spec:
  "convert_strain_rate sru tf r = fl_scale r (spec_strain_rate_multiplier sru tf)"
  by (cases sru) (simp_all add: spec_strain_rate_multiplier_def fl_scale_fl_scale)

lemma convert_time_spec:
  "convert_time tu t = (map (\<lambda>x. x / spec_time_factor tu) t, spec_time_factor tu)"
  by (cases tu) (simp_all add: spec_time_factor_def)

lemma convert_diameter_spec:
  "convert_diameter du sm r =
     (map (\<lambda>d. d * spec_diameter_multiplier du) sm, r * spec_diameter_multiplier du)"
  by (cases du) (simp_all add: spec_diameter_multiplier_def)

lemma np_diff_nth: "i < length x - 1 \<Longrightarrow> np_diff x ! i = x ! (i + 1) - x ! i"
  by (simp add: np_diff_def)

lemma np_gradient_first:
  assumes "np_gradient f x = Inr g"
  shows "g ! 0 = fl_quot (fl_sub (f ! 1) (f ! 0)) (x ! 1 - x ! 0)"
proof -
  have n: "length x = length f" "2 \<le> length f"
    using assms by (auto simp: np_gradient_def split: if_splits)
  have "np_diff x ! 0 = x ! 1 - x ! 0"
    using np_diff_nth [of 0 x] n by simp
  then show ?thesis
    using assms n by (auto simp: np_gradient_def Let_def)
qed

lemma np_gradient_last:
  assumes "np_gradient f x = Inr g"
  shows "g ! (length f - 1) =
           fl_quot (fl_sub (f ! (length f - 1)) (f ! (length f - 2)))
             (x ! (length f - 1) - x ! (length f - 2))"
proof -
  have n: "length x = length f" "2 \<le> length f"
    using assms by (auto simp: np_gradient_def split: if_splits)
  have d: "np_diff x ! (length f - 2) = x ! (length f - 1) - x ! (length f - 2)"
    using np_diff_nth [of "length f - 2" x] n by (simp add: Suc_diff_Suc numeral_2_eq_2)
  have g: "g = (fl_quot (fl_sub (f ! 1) (f ! 0)) (np_diff x ! 0)
                 # map (gradient_interior f (np_diff x)) [1 ..< length f - 1])
                 @ [fl_quot (fl_sub (f ! (length f - 1)) (f ! (length f - 2)))
                      (np_diff x ! (length f - 2))]"
    using assms n by (auto simp: np_gradient_def Let_def)
  have "length (fl_quot (fl_sub (f ! 1) (f ! 0)) (np_diff x ! 0)
                 # map (gradient_interior f (np_diff x)) [1 ..< length f - 1]) = length f - 1"
    using n by simp
  then show ?thesis
    unfolding g d [symmetric] by (metis nth_append_length)
qed

lemma np_gradient_interior:
  assumes "np_gradient f x = Inr g" "0 < i" "i < length f - 1"
  shows "g ! i = gradient_interior f (np_diff x) i"
proof -
  have n: "length x = length f" "2 \<le> length f"
    using assms by (auto simp: np_gradient_def split: if_splits)
  have g: "g = fl_quot (fl_sub (f ! 1) (f ! 0)) (np_diff x ! 0)
                 # (map (gradient_interior f (np_diff x)) [1 ..< length f - 1]
                 @ [fl_quot (fl_sub (f ! (length f - 1)) (f ! (length f - 2)))
                      (np_diff x ! (length f - 2))])"
    using assms n by (auto simp: np_gradient_def Let_def)
  obtain j where j: "i = Suc j" using assms(2) by (cases i) auto
  have "j < length (map (gradient_interior f (np_diff x)) [1 ..< length f - 1])"
    using assms(3) j by simp
  then show ?thesis
    unfolding g j by (simp add: nth_append)
qed

lemma transform_shape:
  assumes "5 \<le> length (dropna df)"
  shows "\<exists>sm g. savgol_filter (map snd (dropna df)) = Inr sm
     \<and> np_gradient
           (map (\<lambda>d. fl_div (d - ref * spec_diameter_multiplier du) (ref * spec_diameter_multiplier du))
              (map (\<lambda>d. d * spec_diameter_multiplier du) sm))
           (map fst (dropna df)) = Inr g
     \<and> transform df ref tu du sru =
         Inr (map (\<lambda>t. t / spec_time_factor tu) (map fst (dropna df)),
              map (\<lambda>d. d * spec_diameter_multiplier du) sm,
              map (\<lambda>d. fl_div (d - ref * spec_diameter_multiplier du) (ref * spec_diameter_multiplier du))
                (map (\<lambda>d. d * spec_diameter_multiplier du) sm),
              map (\<lambda>r. fl_scale r (spec_strain_rate_multiplier sru (spec_time_factor tu))) g)"
proof -
  obtain tc dc ds sr where t: "transform df ref tu du sru = Inr (tc, dc, ds, sr)"
    using transform_ok [OF assms] by blast
  from transform_Inr [OF t] obtain sm g where
    sm: "savgol_filter (map snd (dropna df)) = Inr sm"
    and tc: "tc = fst (convert_time tu (map fst (dropna df)))"
    and dc: "dc = fst (convert_diameter du sm ref)"
    and ds: "ds = map (\<lambda>d. fl_div (d - snd (convert_diameter du sm ref))
                                (snd (convert_diameter du sm ref))) dc"
    and g: "np_gradient ds (map fst (dropna df)) = Inr g"
    and sr: "sr = map (convert_strain_rate sru (snd (convert_time tu (map fst (dropna df))))) g"
    by blast
  have sr': "sr = map (\<lambda>r. fl_scale r (spec_strain_rate_multiplier sru (spec_time_factor tu))) g"
    unfolding sr by (simp add: convert_strain_rate_spec convert_time_spec)
  have dc': "dc = map (\<lambda>d. d * spec_diameter_multiplier du) sm"
    unfolding dc by (simp add: convert_diameter_spec)
  have ds': "ds = map (\<lambda>d. fl_div (d - ref * spec_diameter_multiplier du) (ref * spec_diameter_multiplier du)) dc"
    unfolding ds by (simp add: convert_diameter_spec)
  have tc': "tc = map (\<lambda>t. t / spec_time_factor tu) (map fst (dropna df))"
    unfolding tc by (simp add: convert_time_spec)
  show ?thesis
    using sm g t unfolding tc' sr' ds' dc' by blast
qed

lemma np_diff_positive:
  assumes "sorted_wrt (<) x"
  shows "\<forall>d \<in> set (np_diff x). 0 < d"
proof -
  have "\<And>i. i < length x - 1 \<Longrightarrow> x ! i < x ! (i + 1)"
    using assms by (simp add: sorted_wrt_iff_nth_less)
  then show ?thesis
    by (auto simp: np_diff_def)
qed

lemma gradient_interior_None:
  assumes "\<forall>v \<in> set f. v = None" "i < length f - 1"
  shows "gradient_interior f dx i = None"
proof -
  have "f ! i \<in> set f" "f ! (i + 1) \<in> set f"
    using assms(2) by (auto intro!: nth_mem)
  then have "f ! i = None" "f ! (i + 1) = None"
    using assms(1) by auto
  then show ?thesis
    by (simp add: gradient_interior_def Let_def)
qed

lemma np_gradient_None:
  assumes g: "np_gradient f x = Inr g"
    and f: "\<forall>v \<in> set f. v = None"
  shows "\<forall>v \<in> set g. v = None"
proof -
  have n: "length x = length f" "2 \<le> length f"
    using g by (auto simp: np_gradient_def split: if_splits)
  have "f ! 0 \<in> set f" "f ! (length f - 1) \<in> set f"
    using n by (auto intro!: nth_mem)
  then have e: "f ! 0 = None" "f ! (length f - 1) = None"
    using f by auto
  have "\<forall>i \<in> set [1 ..< length f - 1]. gradient_interior f (np_diff x) i = None"
    using gradient_interior_None [OF f] by simp
  then show ?thesis
    using g n e by (auto simp: np_gradient_def Let_def)
qed

lemma transform_lengths:
  assumes "transform df ref tu du sru = Inr (tc, dc, ds, sr)"
  shows "length tc = length (dropna df) \<and> length dc = length (dropna df)
       \<and> length ds = length (dropna df) \<and> length sr = length (dropna df)"
proof -
  from transform_Inr [OF assms] obtain sm g where
    sm: "savgol_filter (map snd (dropna df)) = Inr sm"
    and tc: "tc = fst (convert_time tu (map fst (dropna df)))"
    and dc: "dc = fst (convert_diameter du sm ref)"
    and ds: "ds = map (\<lambda>d. fl_div (d - snd (convert_diameter du sm ref))
                                (snd (convert_diameter du sm ref))) dc"
    and g: "np_gradient ds (map fst (dropna df)) = Inr g"
    and sr: "sr = map (convert_strain_rate sru (snd (convert_time tu (map fst (dropna df))))) g"
    by blast
  have lsm: "length sm = length (dropna df)"
    using savgol_filter_length [OF sm] by simp
  have ldc: "length dc = length (dropna df)"
    unfolding dc by (simp add: length_convert_diameter lsm)
  have lds: "length ds = length (dropna df)"
    unfolding ds using ldc by simp
  have lg: "length g = length (dropna df)"
    using np_gradient_length [OF g] lds by simp
  show ?thesis
    using ldc lds lg unfolding tc sr by (simp add: length_convert_time)
qed

lemma compute_figure: "compute read_csv h (p\<lparr>figure := f\<rparr>) = compute read_csv h p"
  by (simp add: compute_def split: option.splits sum.splits)

lemma compute_Inr_transform:
  assumes "compute read_csv h p = Inr d"
  shows "\<exists>path df. file_path h = Some path \<and> read_csv path = Inr df
           \<and> transform df (initial_diameter h) (time_unit_combo p) (diameter_unit_combo p)
                (strain_rate_unit_combo p) = Inr d"
  using assms by (auto simp: compute_def split: option.splits if_splits sum.splits)

lemma plot_data_Inl:
  assumes "compute read_csv h p = Inl e"
  shows "plot_data read_csv h p = p\<lparr>figure := subplots, label := PlottingError e\<rparr>"
  using assms by (simp add: plot_data_def Let_def compute_figure)

lemma plot_data_Inr:
  assumes "compute read_csv h p = Inr d"
  shows "plot_data read_csv h p =
           p\<lparr>figure := plot_figure (p\<lparr>figure := subplots, calculated_data := Some d\<rparr>) d,
             calculated_data := Some d,
             canvas := plot_figure (p\<lparr>figure := subplots, calculated_data := Some d\<rparr>) d\<rparr>"
  using assms by (simp add: plot_data_def Let_def compute_figure)

lemma constant_rows_compute:
  "compute (file_with constant_rows) sample_handler initial_window =
     Inr ([0, 1, 2, 3, 4], [10, 10, 10, 10, 10],
          [Some 0, Some 0, Some 0, Some 0, Some 0], [Some 0, Some 0, Some 0, Some 0, Some 0])"
  by (simp add: compute_def sample_handler_def file_with_def initial_window_def
      constant_rows_def transform_def dropna_def savgol_filter_def savgol_conv_def
      np_gradient_def np_diff_def uniform_spacing_def gradient_interior_def fl_div_def
      Let_def upt_conv_Cons)

lemma short_rows_compute:
  "compute (file_with short_rows) sample_handler p = Inl InsufficientData"
  by (simp add: compute_def sample_handler_def file_with_def short_rows_def transform_def
      dropna_def savgol_filter_def)

lemma sample_rows_dropna:
  "dropna sample_rows = [(0, 10), (1, 11), (3, 13), (4, 14), (6, 19), (7, 19)]"
  by (simp add: sample_rows_def dropna_def)

lemma short_rows_dropna: "dropna short_rows = [(0, 10), (3, 10)]"
  by (simp add: short_rows_def dropna_def)

lemma plot_data_units:
  "time_unit_combo (plot_data read_csv h p) = time_unit_combo p
   \<and> diameter_unit_combo (plot_data read_csv h p) = diameter_unit_combo p
   \<and> strain_rate_unit_combo (plot_data read_csv h p) = strain_rate_unit_combo p"
proof (cases "compute read_csv h p")
  case (Inl e)
  then show ?thesis
    by (simp add: plot_data_Inl)
next
  case (Inr d)
  then show ?thesis
    by (simp add: plot_data_Inr)
qed

lemma constant_rows_plotted:
  "calculated_data (plot_data (file_with constant_rows) sample_handler initial_window) =
     Some ([0, 1, 2, 3, 4], [10, 10, 10, 10, 10],
           [Some 0, Some 0, Some 0, Some 0, Some 0], [Some 0, Some 0, Some 0, Some 0, Some 0])"
  by (simp add: plot_data_Inr [OF constant_rows_compute])


lemma plot_data_call_returns: "plot_data_call read_csv h p = Inr (plot_data read_csv h p)"
  by (simp add: plot_data_call_def try_block_def plot_data_def draw_def Let_def
      split: sum.splits)

lemma plot_figure_window:
  "plot_figure (p\<lparr>figure := f, calculated_data := c\<rparr>) d = plot_figure p d"
  by (simp add: plot_figure_def)

lemma float64_mult_positive:
  assumes "1 / 2 ^ 1074 \<le> a * b"
  shows "0 < float64_mult a b"
proof -
  have "(1::real) / 2 ^ 1075 < 1 / 2 ^ 1074"
    by (simp add: divide_strict_left_mono)
  then have "1 / 2 ^ 1075 < a * b" "0 < a * b"
    using assms by auto
  then show ?thesis
    by (simp add: float64_mult_def)
qed

section \<open>The claims\<close>

text \<open>
  C1 (as stated): for every non-positive reference diameter the pipeline fails with
  \<open>InvalidReferenceError\<close>. The code never looks at the sign of the reference
  diameter: on the five constant rows it returns the four series for the reference
  diameter \<open>-1\<close> (strain \<open>-11\<close> everywhere) and for the reference diameter \<open>0\<close>
  (the division by zero makes every strain and strain rate non-finite).
\<close>

theorem nonpositive_reference_returns_series:
  "transform constant_rows (- 1) S Mm PerS =
     Inr ([0, 1, 2, 3, 4], [10, 10, 10, 10, 10],
          [Some (- 11), Some (- 11), Some (- 11), Some (- 11), Some (- 11)],
          [Some 0, Some 0, Some 0, Some 0, Some 0])
   \<and> transform constant_rows 0 S Mm PerS =
     Inr ([0, 1, 2, 3, 4], [10, 10, 10, 10, 10],
          [None, None, None, None, None], [None, None, None, None, None])"
  by (simp add: constant_rows_def transform_def dropna_def savgol_filter_def savgol_conv_def
      np_gradient_def np_diff_def uniform_spacing_def gradient_interior_def fl_div_def
      Let_def upt_conv_Cons)

text \<open>
  C1 (amended): the reference diameter is not checked. With at least five complete rows
  and a non-positive reference diameter the pipeline returns the four series; for the
  reference diameter \<open>0\<close> every strain and every strain rate is non-finite.
\<close>

theorem reference_diameter_not_checked:
  assumes "ref \<le> 0" and "5 \<le> length (dropna df)"
  shows "\<exists>tc dc ds sr.
           transform df ref tu du sru = Inr (tc, dc, ds, sr)
         \<and> (ref = 0 \<longrightarrow> (\<forall>v \<in> set ds. v = None) \<and> (\<forall>v \<in> set sr. v = None))"
proof -
  let ?m = "spec_diameter_multiplier du"
  let ?ds = "\<lambda>sm. map (\<lambda>d. fl_div (d - ref * ?m) (ref * ?m)) (map (\<lambda>d. d * ?m) sm)"
  let ?sr = "\<lambda>g. map (\<lambda>r. fl_scale r (spec_strain_rate_multiplier sru (spec_time_factor tu))) g"
  from transform_shape [OF assms(2), of ref du tu sru] obtain sm g where
    g: "np_gradient (?ds sm) (map fst (dropna df)) = Inr g"
    and t: "transform df ref tu du sru =
         Inr (map (\<lambda>t. t / spec_time_factor tu) (map fst (dropna df)),
              map (\<lambda>d. d * ?m) sm, ?ds sm, ?sr g)"
    by blast
  have zero: "(\<forall>v \<in> set (?ds sm). v = None) \<and> (\<forall>v \<in> set (?sr g). v = None)" if "ref = 0"
  proof -
    have a: "\<forall>v \<in> set (?ds sm). v = None"
      using that by (simp add: fl_div_def)
    from np_gradient_None [OF g a] show ?thesis
      using a by auto
  qed
  show ?thesis
    using t zero by blast
qed

theorem reference_diameter_not_checked_witness:
  "(0::real) \<le> 0 \<and> 5 \<le> length (dropna sample_rows)
   \<and> (\<exists>tc dc ds sr. transform sample_rows 0 Min Um UmPerHour = Inr (tc, dc, ds, sr)
         \<and> list_all (\<lambda>v. v = None) ds \<and> list_all (\<lambda>v. v = None) sr)"
proof -
  have h: "5 \<le> length (dropna sample_rows)"
    by (simp add: sample_rows_dropna)
  show ?thesis
    using h reference_diameter_not_checked [OF order_refl h, of Min Um UmPerHour]
    by (auto simp: list_all_iff)
qed

text \<open>
  C2: with at least five complete rows, for every unit selection, the strain-rate series
  that the pipeline returns is the gradient of the diametrical strain (the strain of the
  smoothed diameter column) with respect to the unconverted time column, each value
  multiplied by the one factor of the specification's table for the selected strain-rate
  unit and the time factor of the selected time unit. The gradient is the one-sided
  difference at the two ends and the central difference in the interior.
\<close>

theorem strain_rate_scaled_gradient:
  assumes "5 \<le> length (dropna df)"
  shows "\<exists>sm ds g.
           savgol_filter (map snd (dropna df)) = Inr sm
         \<and> ds = map (\<lambda>d. fl_div (d - ref * spec_diameter_multiplier du)
                             (ref * spec_diameter_multiplier du))
                  (map (\<lambda>d. d * spec_diameter_multiplier du) sm)
         \<and> np_gradient ds (map fst (dropna df)) = Inr g
         \<and> transform df ref tu du sru =
             Inr (map (\<lambda>t. t / spec_time_factor tu) (map fst (dropna df)),
                  map (\<lambda>d. d * spec_diameter_multiplier du) sm,
                  ds,
                  map (\<lambda>r. fl_scale r (spec_strain_rate_multiplier sru (spec_time_factor tu))) g)
         \<and> length g = length (dropna df)
         \<and> g ! 0 = fl_quot (fl_sub (ds ! 1) (ds ! 0))
                     (map fst (dropna df) ! 1 - map fst (dropna df) ! 0)
         \<and> g ! (length (dropna df) - 1) =
             fl_quot (fl_sub (ds ! (length (dropna df) - 1)) (ds ! (length (dropna df) - 2)))
               (map fst (dropna df) ! (length (dropna df) - 1)
                 - map fst (dropna df) ! (length (dropna df) - 2))
         \<and> (\<forall>i. 0 < i \<and> i < length (dropna df) - 1 \<longrightarrow>
               g ! i = gradient_interior ds (np_diff (map fst (dropna df))) i)"
proof -
  let ?m = "spec_diameter_multiplier du"
  let ?ds = "\<lambda>sm. map (\<lambda>d. fl_div (d - ref * ?m) (ref * ?m)) (map (\<lambda>d. d * ?m) sm)"
  from transform_shape [OF assms, of ref du tu sru] obtain sm g where
    sm: "savgol_filter (map snd (dropna df)) = Inr sm"
    and g: "np_gradient (?ds sm) (map fst (dropna df)) = Inr g"
    and t: "transform df ref tu du sru =
         Inr (map (\<lambda>t. t / spec_time_factor tu) (map fst (dropna df)),
              map (\<lambda>d. d * ?m) sm, ?ds sm,
              map (\<lambda>r. fl_scale r (spec_strain_rate_multiplier sru (spec_time_factor tu))) g)"
    by blast
  have l: "length (?ds sm) = length (dropna df)"
    using savgol_filter_length [OF sm] by simp
  have lg: "length g = length (dropna df)"
    using np_gradient_length [OF g] l by simp
  show ?thesis
    using sm t g lg np_gradient_first [OF g] np_gradient_last [OF g]
      np_gradient_interior [OF g]
    unfolding l by blast
qed

theorem strain_rate_scaled_gradient_witness:
  "5 \<le> length (dropna sample_rows)
   \<and> transform sample_rows 10 Min Um UmPerHour =
       Inr ([0, 1 / 60, 1 / 20, 1 / 15, 1 / 10, 7 / 60],
            [10200, 10800, 12400, 15200, 17400, 19600],
            [Some (1 / 50), Some (2 / 25), Some (6 / 25), Some (13 / 25), Some (37 / 50),
             Some (24 / 25)],
            [Some 12960000, Some 14400000, Some 46080000, Some 48240000, Some 39600000,
             Some 47520000])"
proof -
  have h: "5 \<le> length (dropna sample_rows)"
    by (simp add: sample_rows_dropna)
  from strain_rate_scaled_gradient [OF h, of 10 Um Min UmPerHour] obtain sm ds g where
    sm: "savgol_filter (map snd (dropna sample_rows)) = Inr sm"
    and ds: "ds = map (\<lambda>d. fl_div (d - 10 * spec_diameter_multiplier Um)
                               (10 * spec_diameter_multiplier Um))
                    (map (\<lambda>d. d * spec_diameter_multiplier Um) sm)"
    and g: "np_gradient ds (map fst (dropna sample_rows)) = Inr g"
    and t: "transform sample_rows 10 Min Um UmPerHour =
             Inr (map (\<lambda>t. t / spec_time_factor Min) (map fst (dropna sample_rows)),
                  map (\<lambda>d. d * spec_diameter_multiplier Um) sm,
                  ds,
                  map (\<lambda>r. fl_scale r (spec_strain_rate_multiplier UmPerHour
                                          (spec_time_factor Min))) g)"
    by blast
  have sm': "sm = [51 / 5, 54 / 5, 62 / 5, 76 / 5, 87 / 5, 98 / 5]"
    using sm
    by (simp add: sample_rows_dropna savgol_filter_def savgol_conv_def upt_conv_Cons)
  have ds': "ds = [Some (1 / 50), Some (2 / 25), Some (6 / 25), Some (13 / 25),
                   Some (37 / 50), Some (24 / 25)]"
    unfolding ds sm' by (simp add: spec_diameter_multiplier_def fl_div_def)
  have g': "g = [Some (3 / 50), Some (1 / 15), Some (16 / 75), Some (67 / 300),
                 Some (11 / 60), Some (11 / 50)]"
    using g unfolding ds'
    by (simp add: sample_rows_dropna np_gradient_def np_diff_def uniform_spacing_def
        gradient_interior_def fl_div_def Let_def upt_conv_Cons)
  show ?thesis
    using h unfolding t sm' ds' g'
    by (simp add: sample_rows_dropna spec_time_factor_def spec_diameter_multiplier_def
        spec_strain_rate_multiplier_def)
qed

text \<open>
  C3: when fewer than five rows remain after the rows with a missing value are dropped,
  the pipeline fails with the error of the smoothing window (the specification's
  \<open>InsufficientDataError\<close>); when at least five remain it returns the four series.
\<close>

theorem insufficient_data_below_five_rows:
  "(length (dropna df) < 5 \<longrightarrow> transform df ref tu du sru = Inl InsufficientData)
   \<and> (5 \<le> length (dropna df) \<longrightarrow>
        (\<exists>tc dc ds sr. transform df ref tu du sru = Inr (tc, dc, ds, sr)))"
  using transform_ok [of df ref tu du sru]
  by (auto simp: transform_def savgol_filter_def)

theorem insufficient_data_below_five_rows_witness:
  "length (dropna short_rows) < 5
   \<and> transform short_rows 10 Min Um PerHour = Inl InsufficientData
   \<and> 5 \<le> length (dropna sample_rows)
   \<and> (\<exists>tc dc ds sr. transform sample_rows 10 Min Um PerHour = Inr (tc, dc, ds, sr))"
  using insufficient_data_below_five_rows [of short_rows 10 Min Um PerHour]
    insufficient_data_below_five_rows [of sample_rows 10 Min Um PerHour]
  by (simp add: short_rows_dropna sample_rows_dropna)



text \<open>
  C5 (as stated): after a failing invocation the last rendered state is retained and the
  display is neither cleared nor replaced. The figure, which is what every rendering
  shows, is cleared and given four new axes before the try block. After the five
  constant rows were plotted the full-screen window shows that plot, which is also what
  the canvas drew last; after a following invocation on a file with too few rows, which
  fails, the full-screen window shows four empty axes, and so does the canvas at its
  next draw.
\<close>

theorem failure_clears_display:
  "compute (file_with short_rows) sample_handler
      (plot_data (file_with constant_rows) sample_handler initial_window) =
     Inl InsufficientData
   \<and> open_fullscreen_plot (plot_data (file_with constant_rows) sample_handler initial_window) =
       canvas (plot_data (file_with constant_rows) sample_handler initial_window)
   \<and> canvas (plot_data (file_with constant_rows) sample_handler initial_window) \<noteq> subplots
   \<and> open_fullscreen_plot
        (plot_data (file_with short_rows) sample_handler
          (plot_data (file_with constant_rows) sample_handler initial_window)) = subplots
   \<and> canvas
        (draw (plot_data (file_with short_rows) sample_handler
          (plot_data (file_with constant_rows) sample_handler initial_window))) = subplots"
proof -
  have "canvas (plot_data (file_with constant_rows) sample_handler initial_window) \<noteq> subplots"
    unfolding plot_data_Inr [OF constant_rows_compute]
    by (simp add: plot_figure_def subplots_def new_axes_def initial_window_def Let_def)
  moreover
  have "open_fullscreen_plot (plot_data (file_with constant_rows) sample_handler initial_window) =
          canvas (plot_data (file_with constant_rows) sample_handler initial_window)"
    unfolding plot_data_Inr [OF constant_rows_compute]
    by (simp add: open_fullscreen_plot_def)
  ultimately show ?thesis
    by (simp add: short_rows_compute plot_data_Inl open_fullscreen_plot_def draw_def)
qed

text \<open>
  C5 (amended): when the computation fails, \<open>plot_data\<close> returns (no exception leaves
  it), the label shows the error, and the stored series and what the canvas drew last are
  retained, no draw being queued. The figure is not retained: it holds four empty axes,
  which the full-screen window and the next draw of the canvas show.
\<close>

theorem failure_reported_data_kept:
  assumes "compute read_csv h p = Inl e"
  shows "plot_data_call read_csv h p = Inr (plot_data read_csv h p)
       \<and> label (plot_data read_csv h p) = PlottingError e
       \<and> calculated_data (plot_data read_csv h p) = calculated_data p
       \<and> canvas (plot_data read_csv h p) = canvas p
       \<and> figure (plot_data read_csv h p) = subplots
       \<and> open_fullscreen_plot (plot_data read_csv h p) = subplots
       \<and> canvas (draw (plot_data read_csv h p)) = subplots"
  by (simp add: plot_data_call_returns plot_data_Inl [OF assms] open_fullscreen_plot_def
      draw_def)

theorem failure_reported_data_kept_witness:
  "compute (file_with short_rows) sample_handler
      (plot_data (file_with constant_rows) sample_handler initial_window) =
     Inl InsufficientData
   \<and> plot_data_call (file_with short_rows) sample_handler
        (plot_data (file_with constant_rows) sample_handler initial_window) =
     Inr (plot_data (file_with short_rows) sample_handler
        (plot_data (file_with constant_rows) sample_handler initial_window))
   \<and> label (plot_data (file_with short_rows) sample_handler
        (plot_data (file_with constant_rows) sample_handler initial_window)) =
     PlottingError InsufficientData
   \<and> calculated_data (plot_data (file_with short_rows) sample_handler
        (plot_data (file_with constant_rows) sample_handler initial_window)) =
     Some ([0, 1, 2, 3, 4], [10, 10, 10, 10, 10],
           [Some 0, Some 0, Some 0, Some 0, Some 0], [Some 0, Some 0, Some 0, Some 0, Some 0])
   \<and> canvas (plot_data (file_with short_rows) sample_handler
        (plot_data (file_with constant_rows) sample_handler initial_window)) =
     plot_figure initial_window
       ([0, 1, 2, 3, 4], [10, 10, 10, 10, 10],
        [Some 0, Some 0, Some 0, Some 0, Some 0], [Some 0, Some 0, Some 0, Some 0, Some 0])
   \<and> figure (plot_data (file_with short_rows) sample_handler
        (plot_data (file_with constant_rows) sample_handler initial_window)) = subplots"
proof -
  let ?p1 = "plot_data (file_with constant_rows) sample_handler initial_window"
  have c: "compute (file_with short_rows) sample_handler ?p1 = Inl InsufficientData"
    by (rule short_rows_compute)
  have k: "canvas ?p1 =
      plot_figure initial_window
        ([0, 1, 2, 3, 4], [10, 10, 10, 10, 10],
         [Some 0, Some 0, Some 0, Some 0, Some 0], [Some 0, Some 0, Some 0, Some 0, Some 0])"
    unfolding plot_data_Inr [OF constant_rows_compute] by (simp add: plot_figure_window)
  show ?thesis
    using failure_reported_data_kept [OF c] c k constant_rows_plotted by simp
qed

text \<open>
  C6: with at least five complete rows, for every unit selection, the four series have
  the length of the cleaned input, and element \<open>i\<close> of each comes from row \<open>i\<close>: the
  converted time from the time of row \<open>i\<close>, the converted diameter from element \<open>i\<close>
  of the smoothed diameter, the strain from element \<open>i\<close> of the converted diameter, the
  strain rate from element \<open>i\<close> of the gradient.
\<close>

theorem series_aligned:
  assumes "5 \<le> length (dropna df)"
  shows "\<exists>tc dc ds sr sm g.
           transform df ref tu du sru = Inr (tc, dc, ds, sr)
         \<and> length tc = length (dropna df) \<and> length dc = length (dropna df)
         \<and> length ds = length (dropna df) \<and> length sr = length (dropna df)
         \<and> savgol_filter (map snd (dropna df)) = Inr sm
         \<and> np_gradient ds (map fst (dropna df)) = Inr g
         \<and> (\<forall>i < length (dropna df).
               tc ! i = fst (dropna df ! i) / spec_time_factor tu
             \<and> dc ! i = sm ! i * spec_diameter_multiplier du
             \<and> ds ! i = fl_div (dc ! i - ref * spec_diameter_multiplier du)
                          (ref * spec_diameter_multiplier du)
             \<and> sr ! i = fl_scale (g ! i) (spec_strain_rate_multiplier sru (spec_time_factor tu)))"
proof -
  let ?m = "spec_diameter_multiplier du"
  let ?ds = "\<lambda>sm. map (\<lambda>d. fl_div (d - ref * ?m) (ref * ?m)) (map (\<lambda>d. d * ?m) sm)"
  from transform_shape [OF assms, of ref du tu sru] obtain sm g where
    sm: "savgol_filter (map snd (dropna df)) = Inr sm"
    and g: "np_gradient (?ds sm) (map fst (dropna df)) = Inr g"
    and t: "transform df ref tu du sru =
         Inr (map (\<lambda>t. t / spec_time_factor tu) (map fst (dropna df)),
              map (\<lambda>d. d * ?m) sm, ?ds sm,
              map (\<lambda>r. fl_scale r (spec_strain_rate_multiplier sru (spec_time_factor tu))) g)"
    by blast
  have lsm: "length sm = length (dropna df)"
    using savgol_filter_length [OF sm] by simp
  have lg: "length g = length (dropna df)"
    using np_gradient_length [OF g] lsm by simp
  show ?thesis
    using t sm g lsm lg by (intro exI conjI) (assumption | simp)+
qed

theorem series_aligned_witness:
  "5 \<le> length (dropna sample_rows)
   \<and> (\<exists>tc dc ds sr.
         transform sample_rows 10 Min Um UmPerHour = Inr (tc, dc, ds, sr)
       \<and> length tc = 6 \<and> length dc = 6 \<and> length ds = 6 \<and> length sr = 6
       \<and> tc ! 2 = 3 / 60)"
proof -
  have h: "5 \<le> length (dropna sample_rows)"
    by (simp add: sample_rows_dropna)
  from series_aligned [OF h, of 10 Min Um UmPerHour] obtain tc dc ds sr where
    t: "transform sample_rows 10 Min Um UmPerHour = Inr (tc, dc, ds, sr)"
    and l: "length tc = length (dropna sample_rows)" "length dc = length (dropna sample_rows)"
      "length ds = length (dropna sample_rows)" "length sr = length (dropna sample_rows)"
    and a: "\<forall>i < length (dropna sample_rows).
              tc ! i = fst (dropna sample_rows ! i) / spec_time_factor Min"
    by blast
  have "(2::nat) < length (dropna sample_rows)"
    by (simp add: sample_rows_dropna)
  then have "tc ! 2 = fst (dropna sample_rows ! 2) / spec_time_factor Min"
    using a by blast
  then have "tc ! 2 = 3 / 60"
    by (simp add: sample_rows_dropna spec_time_factor_def)
  then show ?thesis
    using h t l by (simp add: sample_rows_dropna)
qed




text \<open>
  C8: the result of an invocation depends on the file, the handler and the three unit
  selections only. Two windows that agree on the unit selections, whatever they stored,
  drew or showed before, compute the same result, and on success both store it.
\<close>

theorem plot_data_stateless:
  assumes "time_unit_combo p1 = time_unit_combo p2"
    and "diameter_unit_combo p1 = diameter_unit_combo p2"
    and "strain_rate_unit_combo p1 = strain_rate_unit_combo p2"
  shows "compute read_csv h p1 = compute read_csv h p2
       \<and> (\<forall>d. compute read_csv h p1 = Inr d \<longrightarrow>
             calculated_data (plot_data read_csv h p1) = Some d
           \<and> calculated_data (plot_data read_csv h p2) = Some d)"
proof -
  have c: "compute read_csv h p1 = compute read_csv h p2"
    using assms by (simp add: compute_def split: option.splits sum.splits)
  show ?thesis
    using c by (auto simp: plot_data_Inr)
qed

theorem plot_data_stateless_witness:
  "time_unit_combo initial_window =
     time_unit_combo (plot_data (file_with sample_rows) sample_handler initial_window)
   \<and> diameter_unit_combo initial_window =
     diameter_unit_combo (plot_data (file_with sample_rows) sample_handler initial_window)
   \<and> strain_rate_unit_combo initial_window =
     strain_rate_unit_combo (plot_data (file_with sample_rows) sample_handler initial_window)
   \<and> calculated_data (plot_data (file_with constant_rows) sample_handler
        (plot_data (file_with sample_rows) sample_handler initial_window)) =
     calculated_data (plot_data (file_with constant_rows) sample_handler initial_window)"
proof -
  let ?p2 = "plot_data (file_with sample_rows) sample_handler initial_window"
  have u: "time_unit_combo initial_window = time_unit_combo ?p2"
    "diameter_unit_combo initial_window = diameter_unit_combo ?p2"
    "strain_rate_unit_combo initial_window = strain_rate_unit_combo ?p2"
    by (simp_all add: plot_data_units)
  show ?thesis
    using u plot_data_stateless [OF u, of "file_with constant_rows" sample_handler]
      constant_rows_compute
    by simp
qed

text \<open>
  C9: when a step of the computation fails, the stored series are the ones stored before;
  they are replaced only by the complete result of a computation that succeeded, four
  series of one length.
\<close>

theorem calculated_data_stored_last:
  "(\<forall>e. compute read_csv h p = Inl e \<longrightarrow>
        calculated_data (plot_data read_csv h p) = calculated_data p)
   \<and> (\<forall>tc dc ds sr. compute read_csv h p = Inr (tc, dc, ds, sr) \<longrightarrow>
        calculated_data (plot_data read_csv h p) = Some (tc, dc, ds, sr)
        \<and> length dc = length tc \<and> length ds = length tc \<and> length sr = length tc)"
proof (intro conjI allI impI)
  fix e assume "compute read_csv h p = Inl e"
  then show "calculated_data (plot_data read_csv h p) = calculated_data p"
    by (simp add: plot_data_Inl)
next
  fix tc dc ds sr assume c: "compute read_csv h p = Inr (tc, dc, ds, sr)"
  show "calculated_data (plot_data read_csv h p) = Some (tc, dc, ds, sr)"
    by (simp add: plot_data_Inr [OF c])
  from compute_Inr_transform [OF c] obtain df where
    "transform df (initial_diameter h) (time_unit_combo p) (diameter_unit_combo p)
       (strain_rate_unit_combo p) = Inr (tc, dc, ds, sr)"
    by blast
  from transform_lengths [OF this]
  show "length dc = length tc" "length ds = length tc" "length sr = length tc"
    by simp_all
qed

theorem calculated_data_stored_last_witness:
  "compute (file_with short_rows) sample_handler
      (plot_data (file_with constant_rows) sample_handler initial_window) =
     Inl InsufficientData
   \<and> calculated_data (plot_data (file_with short_rows) sample_handler
        (plot_data (file_with constant_rows) sample_handler initial_window)) =
     Some ([0, 1, 2, 3, 4], [10, 10, 10, 10, 10],
           [Some 0, Some 0, Some 0, Some 0, Some 0], [Some 0, Some 0, Some 0, Some 0, Some 0])"
  using calculated_data_stored_last [of "file_with short_rows" sample_handler
      "plot_data (file_with constant_rows) sample_handler initial_window"]
  by (simp add: short_rows_compute constant_rows_plotted)

text \<open>
  C10 (as stated): when the times of the cleaned rows are strictly increasing, every
  divisor of the gradient is strictly positive and no division by zero is reached. The
  products of neighbouring spacings underflow in float64: for the strictly increasing
  times \<open>0, 2^-600, 3 * 2^-600, 4 * 2^-600, 6 * 2^-600\<close> the divisor
  \<open>dx1 * (dx1 + dx2) = 3 * 2^-1200\<close> is zero, and the interior value of the gradient
  comes from a division by zero.
\<close>

theorem increasing_times_zero_divisor:
  "sorted_wrt (<) (map fst (dropna tiny_step_rows))
   \<and> gradient_divisors (np_diff (map fst (dropna tiny_step_rows))) ! 2 = 0
   \<and> gradient_interior_float64 [Some 0, Some 0, Some 0, Some 0, Some 0]
        (np_diff (map fst (dropna tiny_step_rows))) 1 = None"
proof -
  have t: "map fst (dropna tiny_step_rows) =
             [0, 1 / 2 ^ 600, 3 / 2 ^ 600, 4 / 2 ^ 600, 6 / 2 ^ 600]"
    by (simp add: tiny_step_rows_def dropna_def)
  have dx: "np_diff [0, 1 / 2 ^ 600, 3 / 2 ^ 600, 4 / 2 ^ 600, 6 / 2 ^ 600] =
              [1 / 2 ^ 600, 2 / 2 ^ 600, 1 / 2 ^ 600, 2 / 2 ^ 600]"
    by (simp add: np_diff_def upt_conv_Cons)
  have u: "\<not> uniform_spacing [1 / 2 ^ 600, 2 / 2 ^ 600, 1 / 2 ^ 600, 2 / 2 ^ 600 :: real]"
    by (simp add: uniform_spacing_def)
  have m: "float64_mult (1 / 2 ^ 600) (1 / 2 ^ 600 + 2 / 2 ^ 600) = 0"
    by (simp add: float64_mult_def)
  show ?thesis
    unfolding t dx
    using u m by (simp add: gradient_divisors_def gradient_interior_float64_def fl_div_def)
qed

text \<open>
  C10 (amended): when the times of the cleaned rows, as the float64 numbers the gradient
  works with, are strictly increasing, every spacing of adjacent times and every sum of
  two neighbouring spacings is strictly positive; every divisor of the gradient is
  strictly positive when in addition no product of two neighbouring spacings underflows,
  each being at least \<open>2^-1074\<close>, the smallest positive float64.
\<close>

theorem gradient_divisors_positive:
  assumes "sorted_wrt (<) (map fst (dropna df))"
  shows "(\<forall>d \<in> set (np_diff (map fst (dropna df))). 0 < d)
       \<and> (\<forall>i. i + 1 < length (np_diff (map fst (dropna df))) \<longrightarrow>
             0 < np_diff (map fst (dropna df)) ! i + np_diff (map fst (dropna df)) ! (i + 1))
       \<and> ((\<forall>i. i + 1 < length (np_diff (map fst (dropna df))) \<longrightarrow>
               1 / 2 ^ 1074
               \<le> np_diff (map fst (dropna df)) ! i * np_diff (map fst (dropna df)) ! (i + 1))
           \<longrightarrow> (\<forall>d \<in> set (gradient_divisors (np_diff (map fst (dropna df)))). 0 < d))"
proof (intro conjI allI impI)
  let ?dx = "np_diff (map fst (dropna df))"
  show dx: "\<forall>d \<in> set ?dx. 0 < d"
    by (rule np_diff_positive [OF assms])
  have pos: "0 < ?dx ! i" if "i < length ?dx" for i
    using dx that nth_mem by blast
  {
    fix i assume "i + 1 < length ?dx"
    then have "0 < ?dx ! i" "0 < ?dx ! (i + 1)"
      using pos by simp_all
    then show "0 < ?dx ! i + ?dx ! (i + 1)"
      by linarith
  }
  assume big: "\<forall>i. i + 1 < length ?dx \<longrightarrow> 1 / 2 ^ 1074 \<le> ?dx ! i * ?dx ! (i + 1)"
  have prod: "0 < float64_mult (?dx ! (i - 1)) (?dx ! (i - 1) + ?dx ! i)
            \<and> 0 < float64_mult (?dx ! (i - 1)) (?dx ! i)
            \<and> 0 < float64_mult (?dx ! i) (?dx ! (i - 1) + ?dx ! i)"
    if i: "1 \<le> i" "i < length ?dx" for i
  proof -
    have j: "i - 1 + 1 = i"
      using i by simp
    have p: "0 < ?dx ! (i - 1)" "0 < ?dx ! i"
      using pos i by simp_all
    have b: "1 / 2 ^ 1074 \<le> ?dx ! (i - 1) * ?dx ! i"
      using big [rule_format, of "i - 1"] i j by simp
    have "?dx ! (i - 1) * ?dx ! i \<le> ?dx ! (i - 1) * (?dx ! (i - 1) + ?dx ! i)"
      using p by (simp add: distrib_left)
    moreover have "?dx ! (i - 1) * ?dx ! i \<le> ?dx ! i * (?dx ! (i - 1) + ?dx ! i)"
      using p by (simp add: distrib_left mult.commute)
    ultimately show ?thesis
      using b by (auto intro!: float64_mult_positive)
  qed
  show "\<forall>d \<in> set (gradient_divisors ?dx). 0 < d"
  proof (cases "?dx = []")
    case True
    then show ?thesis
      by (simp add: gradient_divisors_def)
  next
    case False
    then have e: "0 < ?dx ! 0" "0 < ?dx ! (length ?dx - 1)"
      using pos by simp_all
    show ?thesis
      using False e prod by (auto simp: gradient_divisors_def)
  qed
qed

theorem gradient_divisors_positive_witness:
  "sorted_wrt (<) (map fst (dropna sample_rows))
   \<and> list_all (\<lambda>d. 0 < d) (np_diff (map fst (dropna sample_rows)))
   \<and> list_all (\<lambda>d. 0 < d) (gradient_divisors (np_diff (map fst (dropna sample_rows))))"
proof -
  have s: "sorted_wrt (<) (map fst (dropna sample_rows))"
    by (simp add: sample_rows_dropna)
  have dx: "np_diff (map fst (dropna sample_rows)) = [1, 2, 1, 2, 1]"
    by (simp add: sample_rows_dropna np_diff_def upt_conv_Cons)
  have "(1::real) / 2 ^ 1074 \<le> 1"
    by simp
  then have big: "\<forall>i. i + 1 < length [1, 2, 1, 2, 1 :: real] \<longrightarrow>
      1 / 2 ^ 1074 \<le> [1, 2, 1, 2, 1 :: real] ! i * [1, 2, 1, 2, 1] ! (i + 1)"
    by (auto simp: less_Suc_eq nth_Cons')
  show ?thesis
    using s big gradient_divisors_positive [OF s] unfolding dx
    by (simp add: list_all_iff)
qed

end
